theory Spec2Isabelle
  imports Complex_Main "HOL-Library.Multiset"
begin

section \<open>Text: the string operations the quiz relies on\<close>

text \<open>
  Python strings are sequences of Unicode code points. The model covers the code points
  below 256 (Latin-1), one \<^typ>\<open>char\<close> each. On that range the tables below are those of
  \<^verbatim>\<open>str.isspace\<close>, \<^verbatim>\<open>str.isdigit\<close> and \<^verbatim>\<open>str.lower\<close>: the superscript digits
  (178, 179 and 185) count as digits for \<^verbatim>\<open>isdigit\<close> although \<^verbatim>\<open>int\<close> refuses them.
\<close>

definition isspace_char :: "char \<Rightarrow> bool" where
  "isspace_char c =
     (let n = (of_char c :: nat)
      in (9 \<le> n \<and> n \<le> 13) \<or> (28 \<le> n \<and> n \<le> 32) \<or> n = 133 \<or> n = 160)"

definition ascii_digit :: "char \<Rightarrow> bool" where
  "ascii_digit c = (let n = (of_char c :: nat) in 48 \<le> n \<and> n \<le> 57)"

definition isdigit_char :: "char \<Rightarrow> bool" where
  "isdigit_char c =
     (let n = (of_char c :: nat) in ascii_digit c \<or> n = 178 \<or> n = 179 \<or> n = 185)"

definition lower_char :: "char \<Rightarrow> char" where
  "lower_char c =
     (let n = (of_char c :: nat)
      in if (65 \<le> n \<and> n \<le> 90) \<or> (192 \<le> n \<and> n \<le> 222 \<and> n \<noteq> 215)
         then char_of (n + 32) else c)"

text \<open>\<^verbatim>\<open>s.strip()\<close>: whitespace is dropped at both ends, never inside.\<close>

definition strip :: "string \<Rightarrow> string" where
  "strip s = rev (dropWhile isspace_char (rev (dropWhile isspace_char s)))"

text \<open>\<^verbatim>\<open>s.lower()\<close>.\<close>

definition lower :: "string \<Rightarrow> string" where
  "lower s = map lower_char s"

text \<open>\<^verbatim>\<open>s.isdigit()\<close>: at least one character, and every character a digit.\<close>

definition isdigit :: "string \<Rightarrow> bool" where
  "isdigit s = (s \<noteq> [] \<and> list_all isdigit_char s)"

datatype py_error = ValueError | EOFError | ZeroDivisionError | OSError

text \<open>
  \<^verbatim>\<open>int(s)\<close> on a string that passed \<^verbatim>\<open>isdigit\<close>: the decimal value when every
  character is one of 0..9, and \<^verbatim>\<open>ValueError\<close> otherwise. (The interpreter's optional cap
  on the length of a decimal literal is left out.)
\<close>

definition digit_val :: "char \<Rightarrow> int" where
  "digit_val c = int (of_char c) - 48"

definition py_int :: "string \<Rightarrow> py_error + int" where
  "py_int s =
     (if s \<noteq> [] \<and> list_all ascii_digit s
      then Inr (foldl (\<lambda>n c. 10 * n + digit_val c) 0 s)
      else Inl ValueError)"

section \<open>Answer validation (\<^verbatim>\<open>run_quiz\<close>, lines 188 to 204)\<close>

text \<open>
  The \<^verbatim>\<open>for ch in choices\<close> loop of the text fallback: the first choice whose lower-cased
  text equals the lower-cased input is taken and the loop breaks.
\<close>

fun text_match :: "string \<Rightarrow> string list \<Rightarrow> string option" where
  "text_match user_choice_text [] = None"
| "text_match user_choice_text (ch # chs) =
     (if lower ch = user_choice_text then Some ch else text_match user_choice_text chs)"

text \<open>
  \<^verbatim>\<open>user_choice\<close> is \<^verbatim>\<open>None\<close> after a timeout and a stripped string otherwise. The
  result is the pair \<^verbatim>\<open>(chosen_text, correct)\<close> as it stands after line 204, or the
  exception raised by \<^verbatim>\<open>int\<close>.
\<close>

definition validate :: "string option \<Rightarrow> string list \<Rightarrow> string \<Rightarrow> py_error + (string option \<times> bool)" where
  "validate user_choice choices ans =
     (case user_choice of
        None \<Rightarrow> Inr (None, False)
      | Some u \<Rightarrow>
          if u \<noteq> [] \<and> isdigit u then
            (case py_int u of
               Inl e \<Rightarrow> Inl e
             | Inr k \<Rightarrow>
                 (let idx = k - 1
                  in if 0 \<le> idx \<and> idx < int (length choices)
                     then Inr (Some (choices ! nat idx), choices ! nat idx = ans)
                     else Inr (None, False)))
          else if u \<noteq> [] then
            (case text_match (lower u) choices of
               Some ch \<Rightarrow> Inr (Some ch, ch = ans)
             | None \<Rightarrow> Inr (None, False))
          else Inr (None, False))"

section \<open>Data model\<close>

text \<open>
  A question is one dictionary of \<^verbatim>\<open>QUESTIONS\<close>. Its \<^verbatim>\<open>"choices"\<close> value is a list
  object: the dictionary holds a reference to it, so a shallow \<^verbatim>\<open>q.copy()\<close> shares the
  list with the original. List objects of choices live in a store, addressed by number.
\<close>

type_synonym addr = nat

record question =
  q_q :: string
  q_choices :: addr
  q_answer :: string
  q_difficulty :: string

text \<open>One element of \<^verbatim>\<open>details\<close>; \<^verbatim>\<open>"your"\<close> is \<^verbatim>\<open>chosen_text\<close>, which may be \<^verbatim>\<open>None\<close>.\<close>

record detail =
  d_question :: string
  d_your :: "string option"
  d_correct :: string
  d_result :: string

text \<open>
  The dictionary \<^verbatim>\<open>entry\<close> written to the scores file. Python floats are read as the
  real numbers they denote.
\<close>

record entry =
  e_user :: string
  e_score :: int
  e_total :: int
  e_percentage :: real
  e_timestamp :: string
  e_details :: "detail list"

text \<open>
  The two float operations of \<^verbatim>\<open>score / total * 100\<close>: true division of two integers and
  multiplication of a float by an integer, each with whatever rounding the machine applies.
\<close>

record float_arith =
  truediv :: "int \<Rightarrow> int \<Rightarrow> real"
  fmul :: "real \<Rightarrow> int \<Rightarrow> real"

text \<open>
  The scores file \<^verbatim>\<open>quiz_scores.json\<close>: absent, present but unreadable or not valid
  JSON, or the document \<^verbatim>\<open>save_score\<close> wrote, a list of entries
  (\<^verbatim>\<open>json.dump\<close> and \<^verbatim>\<open>json.load\<close> are taken to be inverse on such a list).
  \<^verbatim>\<open>disk\<close> says how the next write ends: it succeeds, \<^verbatim>\<open>open\<close> is refused
  (the file is untouched), or the file is truncated by \<^verbatim>\<open>open\<close> and the dump fails
  half-way.
\<close>

datatype store = NoFile | Corrupt | Doc "entry list"

datatype disk = Writable | OpenDenied | DiskFull

text \<open>Everything \<^verbatim>\<open>print\<close> and the prompt of \<^verbatim>\<open>input\<close> put on the terminal.\<close>

datatype msg =
    NoQuestionsMatch
  | Starting string int bool
  | QuestionHeader nat int string
  | ChoiceLine nat string
  | Prompt nat
  | TimeUp
  | CorrectMsg
  | IncorrectMsg string
  | QuizCompleted
  | ScoreLine int int
  | PercentageLine real
  | AccuracyLine real
  | ResultSaved
  | NoPreviousResults
  | LeaderboardHeader int
  | LeaderboardLine nat string int int real string

text \<open>
  The state the program reads and changes. A line of \<^verbatim>\<open>stdin\<close> is the text the user
  types together with the seconds they take to finish it; \<^verbatim>\<open>rng\<close> holds the raw draws
  of the random generator still to come (zero once they run out); \<^verbatim>\<open>clock\<close> is what
  \<^verbatim>\<open>datetime.datetime.now().isoformat()\<close> returns.
\<close>

record world =
  heap :: "addr \<Rightarrow> string list"
  next_addr :: addr
  scores_file :: store
  disk :: disk
  rng :: "nat list"
  stdin :: "(nat \<times> string) list"
  stdout :: "msg list"
  clock :: string
  windows :: bool

definition print :: "msg \<Rightarrow> world \<Rightarrow> world" where
  "print m w = w\<lparr>stdout := stdout w @ [m]\<rparr>"

definition print_all :: "msg list \<Rightarrow> world \<Rightarrow> world" where
  "print_all ms w = w\<lparr>stdout := stdout w @ ms\<rparr>"

section \<open>Library operations\<close>

text \<open>\<^verbatim>\<open>random.shuffle\<close>: for \<^verbatim>\<open>i\<close> from \<^verbatim>\<open>len(x) - 1\<close> down to 1, exchange
  \<^verbatim>\<open>x[i]\<close> with \<^verbatim>\<open>x[j]\<close>, \<^verbatim>\<open>j = randbelow(i + 1)\<close>.\<close>

fun randbelow :: "nat \<Rightarrow> nat list \<Rightarrow> nat \<times> nat list" where
  "randbelow n [] = (0, [])"
| "randbelow n (r # g) = (r mod n, g)"

fun shuffle_from :: "nat \<Rightarrow> 'a list \<Rightarrow> nat list \<Rightarrow> 'a list \<times> nat list" where
  "shuffle_from 0 x g = (x, g)"
| "shuffle_from (Suc i) x g =
     (case randbelow (Suc i + 1) g of
        (j, g') \<Rightarrow> shuffle_from i (x[Suc i := x ! j, j := x ! Suc i]) g')"

definition shuffle :: "'a list \<Rightarrow> nat list \<Rightarrow> 'a list \<times> nat list" where
  "shuffle x g = shuffle_from (length x - 1) x g"

text \<open>The slice \<^verbatim>\<open>xs[:n]\<close>; a negative \<^verbatim>\<open>n\<close> counts from the end.\<close>

definition slice_to :: "'a list \<Rightarrow> int \<Rightarrow> 'a list" where
  "slice_to xs n = (if n < 0 then take (length xs - nat (- n)) xs else take (nat n) xs)"

text \<open>
  \<^verbatim>\<open>sorted(xs, key=f, reverse=True)\<close>: the list is reversed, sorted stably by ascending
  key, and reversed again.
\<close>

definition sorted_reverse :: "('a \<Rightarrow> 'k::linorder) \<Rightarrow> 'a list \<Rightarrow> 'a list" where
  "sorted_reverse f xs = rev (sort_key f (rev xs))"

text \<open>\<^verbatim>\<open>input(prompt)\<close>: the next line of the terminal, \<^verbatim>\<open>EOFError\<close> when there is none.\<close>

definition input :: "msg \<Rightarrow> world \<Rightarrow> (py_error + string) \<times> world" where
  "input prompt w =
     (case stdin w of
        [] \<Rightarrow> (Inl EOFError, print prompt w)
      | (t, s) # rest \<Rightarrow> (Inr s, (print prompt w)\<lparr>stdin := rest\<rparr>))"

text \<open>\<^verbatim>\<open>choices.copy()\<close> of a list object: a new object with the same elements.\<close>

definition list_copy :: "addr \<Rightarrow> world \<Rightarrow> addr \<times> world" where
  "list_copy a w =
     (next_addr w,
      w\<lparr>heap := (heap w)(next_addr w := heap w a), next_addr := Suc (next_addr w)\<rparr>)"

text \<open>\<^verbatim>\<open>random.shuffle(x)\<close> on the list object at an address, in place.\<close>

definition shuffle_at :: "addr \<Rightarrow> world \<Rightarrow> world" where
  "shuffle_at a w =
     (case shuffle (heap w a) (rng w) of
        (x, g) \<Rightarrow> w\<lparr>heap := (heap w)(a := x), rng := g\<rparr>)"

section \<open>Timed input (\<^verbatim>\<open>timed_input\<close>)\<close>

text \<open>
  On Windows the call is \<^verbatim>\<open>input(prompt)\<close>. Elsewhere an alarm is set for
  \<^verbatim>\<open>timeout\<close> seconds (\<^verbatim>\<open>signal.alarm(0)\<close> sets none): when the user needs that long
  or longer, the handler raises \<^verbatim>\<open>TimeoutError\<close>, "Time's up!" is printed and the result is
  \<^verbatim>\<open>None\<close>; what the user is still typing stays on the terminal for the next read.
\<close>

definition timed_input :: "msg \<Rightarrow> nat \<Rightarrow> world \<Rightarrow> (py_error + string option) \<times> world" where
  "timed_input prompt timeout w =
     (if windows w then
        (case input prompt w of
           (Inl e, w') \<Rightarrow> (Inl e, w')
         | (Inr val, w') \<Rightarrow> (Inr (Some val), w'))
      else
        (case stdin w of
           (t, s) # rest \<Rightarrow>
             if timeout \<noteq> 0 \<and> timeout \<le> t
             then (Inr None, (print TimeUp (print prompt w))\<lparr>stdin := (t - timeout, s) # rest\<rparr>)
             else (case input prompt w of
                     (Inl e, w') \<Rightarrow> (Inl e, w')
                   | (Inr val, w') \<Rightarrow> (Inr (Some val), w'))
         | [] \<Rightarrow>
             (case input prompt w of
                (Inl e, w') \<Rightarrow> (Inl e, w')
              | (Inr val, w') \<Rightarrow> (Inr (Some val), w'))))"

section \<open>Persistence (\<^verbatim>\<open>load_scores\<close>, \<^verbatim>\<open>save_score\<close>, \<^verbatim>\<open>show_leaderboard\<close>)\<close>

definition load_scores :: "world \<Rightarrow> entry list" where
  "load_scores w = (case scores_file w of Doc data \<Rightarrow> data | Corrupt \<Rightarrow> [] | NoFile \<Rightarrow> [])"

definition save_score :: "entry \<Rightarrow> world \<Rightarrow> (py_error + unit) \<times> world" where
  "save_score entry w =
     (let data = load_scores w @ [entry]
      in case disk w of
           Writable \<Rightarrow> (Inr (), w\<lparr>scores_file := Doc data\<rparr>)
         | OpenDenied \<Rightarrow> (Inl OSError, w)
         | DiskFull \<Rightarrow> (Inl OSError, w\<lparr>scores_file := Corrupt\<rparr>))"

text \<open>The rows \<^verbatim>\<open>data_sorted[:top_n]\<close> that \<^verbatim>\<open>show_leaderboard\<close> lists.\<close>

definition leaderboard_rows :: "int \<Rightarrow> entry list \<Rightarrow> entry list" where
  "leaderboard_rows top_n data = slice_to (sorted_reverse e_percentage data) top_n"

definition show_leaderboard :: "int \<Rightarrow> world \<Rightarrow> world" where
  "show_leaderboard top_n w =
     (let data = load_scores w
      in if data = [] then print NoPreviousResults w
         else
           (let data_sorted = sorted_reverse e_percentage data
            in print_all
                 (LeaderboardHeader (min top_n (int (length data_sorted))) #
                  map (\<lambda>(i, e). LeaderboardLine i (e_user e) (e_score e) (e_total e)
                                   (e_percentage e) (e_timestamp e))
                      (enumerate 1 (slice_to data_sorted top_n)))
                 w))"

section \<open>The quiz (\<^verbatim>\<open>run_quiz\<close>)\<close>

text \<open>Lines 176 to 186: the prompt and the answer, stripped unless the read timed out.\<close>

definition get_answer :: "bool \<Rightarrow> nat \<Rightarrow> nat \<Rightarrow> world \<Rightarrow> (py_error + string option) \<times> world" where
  "get_answer timed per_question_time n w =
     (if timed then
        (case timed_input (Prompt n) per_question_time w of
           (Inl e, w') \<Rightarrow> (Inl e, w')
         | (Inr None, w') \<Rightarrow> (Inr None, w')
         | (Inr (Some ans), w') \<Rightarrow> (Inr (Some (strip ans)), w'))
      else
        (case input (Prompt n) w of
           (Inl e, w') \<Rightarrow> (Inl e, w')
         | (Inr ans, w') \<Rightarrow> (Inr (Some (strip ans)), w')))"

text \<open>
  Lines 206 to 212: the score and the detail log after one question.
  \<^verbatim>\<open>chosen_text if chosen_text else "No valid answer"\<close> replaces \<^verbatim>\<open>None\<close> and the empty
  string.
\<close>

definition record_result ::
  "question \<Rightarrow> string option \<Rightarrow> bool \<Rightarrow> int \<times> detail list \<Rightarrow> world \<Rightarrow> (int \<times> detail list) \<times> world" where
  "record_result q chosen_text correct acc w =
     (case acc of (score, details) \<Rightarrow>
        if correct then
          ((score + 1,
            details @ [\<lparr>d_question = q_q q, d_your = chosen_text,
                         d_correct = q_answer q, d_result = ''correct''\<rparr>]),
           print CorrectMsg w)
        else
          ((score,
            details @ [\<lparr>d_question = q_q q,
                         d_your = (case chosen_text of
                                     None \<Rightarrow> Some ''No valid answer''
                                   | Some t \<Rightarrow> if t \<noteq> [] then Some t else Some ''No valid answer''),
                         d_correct = q_answer q, d_result = ''incorrect''\<rparr>]),
           print (IncorrectMsg (q_answer q)) w))"

text \<open>
  The body of the \<^verbatim>\<open>for i, q in enumerate(pool, start=1)\<close> loop: copy the choices, shuffle
  the copy, show the question, read the answer, validate it and record the result.
\<close>

definition question_step ::
  "bool \<Rightarrow> nat \<Rightarrow> int \<Rightarrow> nat \<Rightarrow> question \<Rightarrow> int \<times> detail list \<Rightarrow> world
     \<Rightarrow> (py_error + int \<times> detail list) \<times> world" where
  "question_step timed per_question_time total_n i q acc w =
     (case list_copy (q_choices q) w of (c, w1) \<Rightarrow>
        (let w2 = shuffle_at c w1;
             choices = heap w2 c;
             w3 = print_all
                    (QuestionHeader i total_n (q_q q) #
                     map (\<lambda>(idx, ch). ChoiceLine idx ch) (enumerate 1 choices)) w2
         in case get_answer timed per_question_time (length choices) w3 of
              (Inl e, w4) \<Rightarrow> (Inl e, w4)
            | (Inr user_choice, w4) \<Rightarrow>
                (case validate user_choice choices (q_answer q) of
                   Inl e \<Rightarrow> (Inl e, w4)
                 | Inr (chosen_text, correct) \<Rightarrow>
                     (case record_result q chosen_text correct acc w4 of
                        (acc', w5) \<Rightarrow> (Inr acc', w5)))))"

fun quiz_loop ::
  "bool \<Rightarrow> nat \<Rightarrow> int \<Rightarrow> nat \<Rightarrow> question list \<Rightarrow> int \<times> detail list \<Rightarrow> world
     \<Rightarrow> (py_error + int \<times> detail list) \<times> world" where
  "quiz_loop timed per_question_time total_n i [] acc w = (Inr acc, w)"
| "quiz_loop timed per_question_time total_n i (q # pool) acc w =
     (case question_step timed per_question_time total_n i q acc w of
        (Inl e, w') \<Rightarrow> (Inl e, w')
      | (Inr acc', w') \<Rightarrow> quiz_loop timed per_question_time total_n (Suc i) pool acc' w')"

text \<open>
  Line 217, \<^verbatim>\<open>(score / total) * 100 if total else 0.0\<close>, and line 222,
  \<^verbatim>\<open>sum(1 for d in details if d["result"] == "correct") / total * 100\<close>, which has no
  guard: it raises \<^verbatim>\<open>ZeroDivisionError\<close> when \<^verbatim>\<open>total\<close> is zero.
\<close>

definition percentage_of :: "float_arith \<Rightarrow> int \<Rightarrow> int \<Rightarrow> real" where
  "percentage_of fl score total_n =
     (if total_n \<noteq> 0 then fmul fl (truediv fl score total_n) 100 else 0)"

definition count_correct :: "detail list \<Rightarrow> int" where
  "count_correct details = int (length (filter (\<lambda>d. d_result d = ''correct'') details))"

definition accuracy_of :: "float_arith \<Rightarrow> detail list \<Rightarrow> int \<Rightarrow> py_error + real" where
  "accuracy_of fl details total_n =
     (if total_n = 0 then Inl ZeroDivisionError
      else Inr (fmul fl (truediv fl (count_correct details) total_n) 100))"

text \<open>Lines 217 to 236: the closing report, the entry and its saving.\<close>

definition finish ::
  "float_arith \<Rightarrow> string \<Rightarrow> int \<Rightarrow> int \<Rightarrow> detail list \<Rightarrow> world \<Rightarrow> (py_error + entry option) \<times> world" where
  "finish fl user score total_n details w =
     (let percentage = percentage_of fl score total_n;
          w1 = print (PercentageLine percentage)
                 (print (ScoreLine score total_n) (print QuizCompleted w))
      in case accuracy_of fl details total_n of
           Inl e \<Rightarrow> (Inl e, w1)
         | Inr accuracy \<Rightarrow>
             (let w2 = print (AccuracyLine accuracy) w1;
                  entry = \<lparr>e_user = user, e_score = score, e_total = total_n,
                           e_percentage = percentage, e_timestamp = clock w2,
                           e_details = details\<rparr>
              in case save_score entry w2 of
                   (Inl e, w3) \<Rightarrow> (Inl e, w3)
                 | (Inr u, w3) \<Rightarrow> (Inr (Some entry), print ResultSaved w3)))"

text \<open>
  Lines 157 to 159: the pool is shuffled and, when \<^verbatim>\<open>num_questions\<close> is neither
  \<^verbatim>\<open>None\<close> nor zero, cut to \<^verbatim>\<open>pool[:num_questions]\<close>.
\<close>

definition draw_pool :: "question list \<Rightarrow> int option \<Rightarrow> nat list \<Rightarrow> question list \<times> nat list" where
  "draw_pool pool num_questions g =
     (case shuffle pool g of
        (pool1, g') \<Rightarrow>
          ((case num_questions of
              None \<Rightarrow> pool1
            | Some n \<Rightarrow> if n \<noteq> 0 then slice_to pool1 n else pool1), g'))"

text \<open>
  \<^verbatim>\<open>run_quiz\<close> over a question bank. The result is \<^verbatim>\<open>None\<close> when no question matches,
  the entry otherwise, or the exception that ended the run.
\<close>

definition run_quiz ::
  "float_arith \<Rightarrow> question list \<Rightarrow> string \<Rightarrow> string \<Rightarrow> bool \<Rightarrow> nat \<Rightarrow> int option \<Rightarrow> world
     \<Rightarrow> (py_error + entry option) \<times> world" where
  "run_quiz fl bank user difficulty timed per_question_time num_questions w =
     (let pool = filter (\<lambda>q. difficulty = ''all'' \<or> q_difficulty q = difficulty) bank
      in if pool = [] then (Inr None, print NoQuestionsMatch w)
         else
           (case draw_pool pool num_questions (rng w) of
              (pool', g) \<Rightarrow>
                (let total_n = int (length pool');
                     w1 = print (Starting user total_n timed) (w\<lparr>rng := g\<rparr>)
                 in case quiz_loop timed per_question_time total_n 1 pool' (0, []) w1 of
                      (Inl e, w2) \<Rightarrow> (Inl e, w2)
                    | (Inr (score, details), w2) \<Rightarrow>
                        finish fl user score total_n details w2)))"

section \<open>The question bank (\<^verbatim>\<open>QUESTIONS\<close>)\<close>

text \<open>
  The nine dictionaries of the module, and the store holding their nine lists of choices at
  the addresses 0 to 8 when the program starts.
\<close>

definition QUESTIONS :: "question list" where
  "QUESTIONS = [
    \<lparr>q_q = ''What does CPU stand for?'',
      q_choices = 0,
      q_answer = ''Central Processing Unit'',
      q_difficulty = ''easy''\<rparr>,
    \<lparr>q_q = ''What does GPU stand for?'',
      q_choices = 1,
      q_answer = ''Graphics Processing Unit'',
      q_difficulty = ''easy''\<rparr>,
    \<lparr>q_q = ''What does RAM stand for?'',
      q_choices = 2,
      q_answer = ''Random Access Memory'',
      q_difficulty = ''easy''\<rparr>,
    \<lparr>q_q = ''Which sorting algorithm has average time complexity O(n log n) and is often used for large datasets?'',
      q_choices = 3,
      q_answer = ''Merge sort'',
      q_difficulty = ''medium''\<rparr>,
    \<lparr>q_q = ''In Python, what does GIL (Global Interpreter Lock) affect?'',
      q_choices = 4,
      q_answer = ''Ability to use multiple cores for CPU-bound Python bytecode'',
      q_difficulty = ''medium''\<rparr>,
    \<lparr>q_q = ''Which of the following is a non-relational (NoSQL) database?'',
      q_choices = 5,
      q_answer = ''MongoDB'',
      q_difficulty = ''easy''\<rparr>,
    \<lparr>q_q = ''What is the main idea behind Docker?'',
      q_choices = 6,
      q_answer = ''Containerization for lightweight, portable runtime environments'',
      q_difficulty = ''medium''\<rparr>,
    \<lparr>q_q = ''Which neural network architecture is best suited for sequence data like time series or text?'',
      q_choices = 7,
      q_answer = ''Recurrent Neural Network (RNN)'',
      q_difficulty = ''hard''\<rparr>,
    \<lparr>q_q = ''Which Big O gives worst-case time complexity for QuickSort?'',
      q_choices = 8,
      q_answer = ''O(n^2)'',
      q_difficulty = ''hard''\<rparr>]"

definition QUESTIONS_heap :: "addr \<Rightarrow> string list" where
  "QUESTIONS_heap a =
    (
     if a = 0 then
       [''Central Processing Unit'',
        ''Computer Primary Unit'',
        ''Central Power Unit'',
        ''Control Processing Unit'']
     else if a = 1 then
       [''Graphics Processing Unit'',
        ''General Processing Unit'',
        ''Graphical Program Unit'',
        ''Global Processing Unit'']
     else if a = 2 then
       [''Random Access Memory'',
        ''Readily Available Memory'',
        ''Random Active Memory'',
        ''Rapid Access Memory'']
     else if a = 3 then
       [''Bubble sort'',
        ''Selection sort'',
        ''Merge sort'',
        ''Insertion sort'']
     else if a = 4 then
       [''I/O performance only'',
        ''Ability to use multiple cores for CPU-bound Python bytecode'',
        ''Memory allocation'',
        ''Garbage collection timing'']
     else if a = 5 then
       [''PostgreSQL'',
        ''MySQL'',
        ''MongoDB'',
        ''SQLite'']
     else if a = 6 then
       [''Virtual machines with full OS'',
        ''Containerization for lightweight, portable runtime environments'',
        ''A new programming language'',
        ''A database engine'']
     else if a = 7 then
       [''Convolutional Neural Network (CNN)'',
        ''Recurrent Neural Network (RNN)'',
        ''K-Means'',
        ''PCA'']
     else if a = 8 then
       [''O(n)'',
        ''O(n log n)'',
        ''O(n^2)'',
        ''O(log n)'']
     else [])"

text \<open>The state at program start, for a given scores file, disk, generator, terminal and clock.\<close>

definition initial_world ::
  "store \<Rightarrow> disk \<Rightarrow> nat list \<Rightarrow> (nat \<times> string) list \<Rightarrow> string \<Rightarrow> bool \<Rightarrow> world" where
  "initial_world f d g lines now win =
     \<lparr>heap = QUESTIONS_heap, next_addr = 9, scores_file = f, disk = d, rng = g,
      stdin = lines, stdout = [], clock = now, windows = win\<rparr>"

text \<open>Float arithmetic without rounding, for evaluating examples.\<close>

definition exact_arith :: float_arith where
  "exact_arith = \<lparr>truediv = (\<lambda>a b. real_of_int a / real_of_int b),
                  fmul = (\<lambda>x k. x * real_of_int k)\<rparr>"

text \<open>
  What a step of the quiz leaves alone: the disk, the scores file, the clock, and every
  list object that existed before the step (objects are only ever added).
\<close>

definition stable :: "world \<Rightarrow> world \<Rightarrow> bool" where
  "stable w w' =
     (disk w' = disk w \<and> scores_file w' = scores_file w \<and> clock w' = clock w
      \<and> next_addr w \<le> next_addr w' \<and> (\<forall>a<next_addr w. heap w' a = heap w a))"

text \<open>An entry without details, for examples over the scores file.\<close>

definition sample_entry :: "string \<Rightarrow> int \<Rightarrow> int \<Rightarrow> real \<Rightarrow> entry" where
  "sample_entry u s t p =
     \<lparr>e_user = u, e_score = s, e_total = t, e_percentage = p,
      e_timestamp = ''2024-05-01T10:00:00'', e_details = []\<rparr>"

text \<open>
  A starting state for examples: no scores file yet, a fixed run of random draws and a
  fixed clock; the disk and the lines typed are given.
\<close>

definition example_world :: "disk \<Rightarrow> (nat \<times> string) list \<Rightarrow> world" where
  "example_world d lines =
     initial_world NoFile d [1, 0, 3, 2, 1, 0, 7, 5] lines ''2024-05-01T10:00:00'' False"

text \<open>The entry of the example session: user ann, the two hard questions, one right.\<close>

definition example_entry :: entry where
  "example_entry =
     \<lparr>e_user = ''ann'', e_score = 1, e_total = 2, e_percentage = 50,
      e_timestamp = ''2024-05-01T10:00:00'',
      e_details =
        [\<lparr>d_question = ''Which neural network architecture is best suited for sequence data like time series or text?'',
          d_your = Some ''K-Means'',
          d_correct = ''Recurrent Neural Network (RNN)'',
          d_result = ''incorrect''\<rparr>,
         \<lparr>d_question = ''Which Big O gives worst-case time complexity for QuickSort?'',
          d_your = Some ''O(n^2)'',
          d_correct = ''O(n^2)'',
          d_result = ''correct''\<rparr>]\<rparr>"

section \<open>Answer validation: the numeric path and the text fallback\<close>

lemma text_match_find: "text_match t chs = find (\<lambda>ch. lower ch = t) chs"
  by (induction chs) simp_all

lemma py_int_isdigit: "py_int u = Inr k \<Longrightarrow> u \<noteq> [] \<and> isdigit u"
  by (auto simp: py_int_def isdigit_def isdigit_char_def list_all_iff split: if_splits)

text \<open>
  Claim C8. An answer that is a string of decimal digits with value \<open>k\<close>,
  \<open>1 \<le> k \<le> len(choices)\<close>, selects \<open>choices[k - 1]\<close>, and it is correct exactly when
  that text equals the question's answer (equality of strings, case included). The two
  examples of the specification are the witness.
\<close>

theorem validate_numeric:
  assumes "py_int u = Inr k" and "1 \<le> k" and "k \<le> int (length choices)"
  shows "validate (Some u) choices ans =
           Inr (Some (choices ! nat (k - 1)), choices ! nat (k - 1) = ans)"
proof -
  from assms(1) have "u \<noteq> []" and "isdigit u"
    using py_int_isdigit by blast+
  with assms show ?thesis
    by (simp add: validate_def Let_def)
qed

theorem validate_numeric_witness:
  "py_int ''1'' = Inr 1 \<and> py_int ''2'' = Inr 2
   \<and> (1::int) \<le> 2 \<and> (2::int) \<le> int (length [''B'', ''A'', ''C'', ''D''])
   \<and> validate (Some ''1'') [''B'', ''A'', ''C'', ''D''] ''A'' = Inr (Some ''B'', False)
   \<and> validate (Some ''2'') [''B'', ''A'', ''C'', ''D''] ''A'' = Inr (Some ''A'', True)"
proof -
  have p1: "py_int ''1'' = Inr 1" and p2: "py_int ''2'' = Inr 2"
    by (simp_all add: py_int_def ascii_digit_def digit_val_def)
  show ?thesis
    using validate_numeric [OF p1, of "[''B'', ''A'', ''C'', ''D'']" "''A''"]
          validate_numeric [OF p2, of "[''B'', ''A'', ''C'', ''D'']" "''A''"] p1 p2
    by simp
qed

text \<open>
  Claim C1, as the specification states it, sends a number out of range through the text
  fallback too. The code does not: the fallback is the \<^verbatim>\<open>else\<close> branch of the
  \<^verbatim>\<open>isdigit\<close> test. With the choices "7" and "8", the answer "7" is a number out of
  range that equals the first choice as text, and no choice is taken.
\<close>

theorem out_of_range_number_counterexample:
  "isdigit ''7'' \<and> py_int ''7'' = Inr 7 \<and> \<not> (7::int) \<le> int (length [''7'', ''8''])
   \<and> text_match (lower ''7'') [''7'', ''8''] = Some ''7''
   \<and> validate (Some ''7'') [''7'', ''8''] ''7'' = Inr (None, False)
   \<and> validate (Some ''7'') [''7'', ''8''] ''7'' \<noteq> Inr (Some ''7'', True)"
  by code_simp

text \<open>
  Claim C1, amended. For a non-empty answer that \<^verbatim>\<open>isdigit\<close> rejects, the first choice in
  presentation order whose lower-cased text equals the lower-cased answer is taken, and it
  is correct exactly when it equals the question's answer; without such a choice nothing is
  taken and the answer is incorrect. A string of decimal digits whose value is out of range
  takes nothing and is incorrect, whatever the choices are.
\<close>

theorem validate_fallback:
  "u \<noteq> [] \<Longrightarrow>
     (\<not> isdigit u \<longrightarrow>
        validate (Some u) choices ans =
          (case find (\<lambda>ch. lower ch = lower u) choices of
             Some ch \<Rightarrow> Inr (Some ch, ch = ans)
           | None \<Rightarrow> Inr (None, False)))
   \<and> (py_int u = Inr k \<and> \<not> (1 \<le> k \<and> k \<le> int (length choices)) \<longrightarrow>
        validate (Some u) choices ans = Inr (None, False))"
proof (intro conjI impI)
  assume "u \<noteq> []" and "\<not> isdigit u"
  then show "validate (Some u) choices ans =
          (case find (\<lambda>ch. lower ch = lower u) choices of
             Some ch \<Rightarrow> Inr (Some ch, ch = ans)
           | None \<Rightarrow> Inr (None, False))"
    by (simp add: validate_def text_match_find)
next
  assume a: "py_int u = Inr k \<and> \<not> (1 \<le> k \<and> k \<le> int (length choices))"
  then have "u \<noteq> []" and "isdigit u"
    using py_int_isdigit by blast+
  with a show "validate (Some u) choices ans = Inr (None, False)"
    by (auto simp: validate_def)
qed

theorem validate_fallback_witness:
  "''central processing unit'' \<noteq> [] \<and> \<not> isdigit ''central processing unit''
   \<and> validate (Some ''central processing unit'')
        [''Computer Primary Unit'', ''Central Processing Unit''] ''Central Processing Unit''
       = Inr (Some ''Central Processing Unit'', True)
   \<and> ''9'' \<noteq> [] \<and> py_int ''9'' = Inr 9
   \<and> \<not> (1 \<le> (9::int) \<and> (9::int) \<le> int (length [''A'', ''B'']))
   \<and> validate (Some ''9'') [''A'', ''B''] ''A'' = Inr (None, False)"
proof -
  have nd: "\<not> isdigit ''central processing unit''"
    by (simp add: isdigit_def isdigit_char_def ascii_digit_def)
  have p9: "py_int ''9'' = Inr 9"
    by (simp add: py_int_def ascii_digit_def digit_val_def)
  have lw: "lower ''Computer Primary Unit'' \<noteq> lower ''central processing unit''"
       "lower ''Central Processing Unit'' = lower ''central processing unit''"
    by code_simp+
  show ?thesis
    using validate_fallback [of "''central processing unit''"
            "[''Computer Primary Unit'', ''Central Processing Unit'']"
            "''Central Processing Unit''" 0]
          validate_fallback [of "''9''" "[''A'', ''B'']" "''A''" 9] nd p9 lw
    by simp
qed

section \<open>The scores file\<close>

text \<open>
  Claim C6. When the write succeeds, \<^verbatim>\<open>save_score(entry)\<close> followed by
  \<^verbatim>\<open>load_scores()\<close> gives what \<^verbatim>\<open>load_scores()\<close> gave before, unchanged and in order,
  with the entry itself as the new last element (an absent or unreadable file counts as the
  empty list).
\<close>

theorem save_then_load:
  "disk w = Writable \<Longrightarrow>
     fst (save_score entry w) = Inr ()
     \<and> load_scores (snd (save_score entry w)) = load_scores w @ [entry]
     \<and> last (load_scores (snd (save_score entry w))) = entry
     \<and> butlast (load_scores (snd (save_score entry w))) = load_scores w"
  by (simp add: save_score_def load_scores_def)

theorem save_then_load_witness:
  "disk (initial_world (Doc [sample_entry ''ann'' 1 2 50]) Writable [] [] ''now'' False) = Writable
   \<and> load_scores (snd (save_score (sample_entry ''bob'' 2 2 100)
        (initial_world (Doc [sample_entry ''ann'' 1 2 50]) Writable [] [] ''now'' False)))
     = [sample_entry ''ann'' 1 2 50, sample_entry ''bob'' 2 2 100]"
  using save_then_load [of "initial_world (Doc [sample_entry ''ann'' 1 2 50]) Writable [] [] ''now'' False"
          "sample_entry ''bob'' 2 2 100"]
  by (simp add: initial_world_def load_scores_def)

section \<open>An empty pool\<close>

text \<open>
  Claim C7. When no question of the bank matches the difficulty, \<^verbatim>\<open>run_quiz\<close> prints
  "No questions match that difficulty." and returns without a record: nothing else is
  printed, no line is read from the terminal, and the scores file is as it was (the state
  differs from the initial one only by the message).
\<close>

theorem empty_pool:
  "filter (\<lambda>q. difficulty = ''all'' \<or> q_difficulty q = difficulty) bank = [] \<Longrightarrow>
     run_quiz fl bank user difficulty timed per_question_time num_questions w =
       (Inr None, w\<lparr>stdout := stdout w @ [NoQuestionsMatch]\<rparr>)"
  by (simp add: run_quiz_def print_def)

theorem empty_pool_witness:
  "filter (\<lambda>q. ''expert'' = ''all'' \<or> q_difficulty q = ''expert'') QUESTIONS = []
   \<and> fst (run_quiz exact_arith QUESTIONS ''ann'' ''expert'' False 15 None
        (initial_world NoFile Writable [] [(1, ''1'')] ''now'' False)) = Inr None
   \<and> stdout (snd (run_quiz exact_arith QUESTIONS ''ann'' ''expert'' False 15 None
        (initial_world NoFile Writable [] [(1, ''1'')] ''now'' False))) = [NoQuestionsMatch]
   \<and> stdin (snd (run_quiz exact_arith QUESTIONS ''ann'' ''expert'' False 15 None
        (initial_world NoFile Writable [] [(1, ''1'')] ''now'' False))) = [(1, ''1'')]
   \<and> scores_file (snd (run_quiz exact_arith QUESTIONS ''ann'' ''expert'' False 15 None
        (initial_world NoFile Writable [] [(1, ''1'')] ''now'' False))) = NoFile"
proof -
  have e: "filter (\<lambda>q. ''expert'' = ''all'' \<or> q_difficulty q = ''expert'') QUESTIONS = []"
    by (simp add: QUESTIONS_def)
  show ?thesis
    using empty_pool [OF e, of exact_arith "''ann''" False 15 None
            "initial_world NoFile Writable [] [(1, ''1'')] ''now'' False"] e
    by (simp add: initial_world_def)
qed

section \<open>Recording an answer that chose nothing\<close>

lemma validate_None_incorrect:
  "validate user_choice choices ans = Inr (None, correct) \<Longrightarrow> \<not> correct"
  by (auto simp: validate_def Let_def split: option.splits if_splits sum.splits)

text \<open>
  Claim C3, as the specification states it, has the detail log hold the string
  "no valid answer". The code writes "No valid answer", with a capital N: after a timeout
  (\<^verbatim>\<open>user_choice\<close> is \<^verbatim>\<open>None\<close>) the recorded text differs from the specification's.
\<close>

theorem no_valid_answer_text_counterexample:
  "validate None (QUESTIONS_heap 0) (q_answer (hd QUESTIONS)) = Inr (None, False)
   \<and> d_your (last (snd (fst (record_result (hd QUESTIONS) None False (0, [])
                                (example_world Writable [])))))
       = Some ''No valid answer''
   \<and> d_your (last (snd (fst (record_result (hd QUESTIONS) None False (0, [])
                                (example_world Writable [])))))
       \<noteq> Some ''no valid answer''"
  by (simp add: validate_def record_result_def)

text \<open>
  Claim C3, amended. Whenever the validation of an answer chooses nothing (a timeout, an
  empty answer, a number out of range, a text that matches no choice), the score is
  unchanged and the detail appended to the log has the question's text, the string
  "No valid answer" as the answer given, the question's answer, and the result
  "incorrect".
\<close>

theorem no_valid_answer_recorded:
  "validate user_choice choices (q_answer q) = Inr (None, correct) \<Longrightarrow>
     fst (record_result q None correct (score, details) w) =
       (score,
        details @ [\<lparr>d_question = q_q q, d_your = Some ''No valid answer'',
                     d_correct = q_answer q, d_result = ''incorrect''\<rparr>])"
  by (frule validate_None_incorrect) (simp add: record_result_def)

theorem no_valid_answer_recorded_witness:
  "validate None (QUESTIONS_heap 0) (q_answer (hd QUESTIONS)) = Inr (None, False)
   \<and> validate (Some []) (QUESTIONS_heap 0) (q_answer (hd QUESTIONS)) = Inr (None, False)
   \<and> validate (Some ''9'') (QUESTIONS_heap 0) (q_answer (hd QUESTIONS)) = Inr (None, False)
   \<and> validate (Some ''xyz'') (QUESTIONS_heap 0) (q_answer (hd QUESTIONS)) = Inr (None, False)
   \<and> fst (record_result (hd QUESTIONS) None False (3, []) (example_world Writable []))
       = (3, [\<lparr>d_question = ''What does CPU stand for?'',
                d_your = Some ''No valid answer'',
                d_correct = ''Central Processing Unit'',
                d_result = ''incorrect''\<rparr>])"
proof -
  have v: "validate None (QUESTIONS_heap 0) (q_answer (hd QUESTIONS)) = Inr (None, False)"
          "validate (Some []) (QUESTIONS_heap 0) (q_answer (hd QUESTIONS)) = Inr (None, False)"
          "validate (Some ''9'') (QUESTIONS_heap 0) (q_answer (hd QUESTIONS)) = Inr (None, False)"
          "validate (Some ''xyz'') (QUESTIONS_heap 0) (q_answer (hd QUESTIONS)) = Inr (None, False)"
    by code_simp+
  have q: "q_q (hd QUESTIONS) = ''What does CPU stand for?''"
          "q_answer (hd QUESTIONS) = ''Central Processing Unit''"
    by (simp_all add: QUESTIONS_def)
  show ?thesis
    using no_valid_answer_recorded [OF v(3), of 3 "[]" "example_world Writable []"] v q
    by simp
qed

section \<open>Whitespace around an answer\<close>

lemma strip_padding:
  assumes a: "list_all isspace_char a" and b: "list_all isspace_char b"
  shows "strip (a @ s @ b) = strip s"
proof -
  have 1: "dropWhile isspace_char (a @ s @ b) = dropWhile isspace_char (s @ b)"
    using a by (simp add: dropWhile_append2 list_all_iff)
  show ?thesis
  proof (cases "list_all isspace_char s")
    case True
    then have "dropWhile isspace_char (a @ s @ b) = []" "dropWhile isspace_char s = []"
      using a b by (simp_all only: dropWhile_eq_Nil_conv list_all_iff set_append Un_iff) blast+
    then show ?thesis by (simp only: strip_def)
  next
    case False
    then obtain x where x: "x \<in> set s" "\<not> isspace_char x"
      by (auto simp: list_all_iff)
    then have "dropWhile isspace_char (s @ b) = dropWhile isspace_char s @ b"
      by (simp add: dropWhile_append1)
    with 1 have "rev (dropWhile isspace_char (a @ s @ b)) = rev b @ rev (dropWhile isspace_char s)"
      by simp
    moreover have "dropWhile isspace_char (rev b @ rev (dropWhile isspace_char s))
                   = dropWhile isspace_char (rev (dropWhile isspace_char s))"
      using b by (intro dropWhile_append2) (simp add: list_all_iff)
    ultimately show ?thesis by (simp add: strip_def)
  qed
qed

text \<open>
  Claim C10. Whitespace typed before and after an answer changes nothing: in timed and in
  untimed mode alike, the step of the quiz that reads the padded line gives the same score
  and detail log (or the same exception) as the step that reads the bare line, prints the
  same, and leaves the same state; the two states can differ only in the text still unread
  on the terminal after a timeout.
\<close>

theorem whitespace_ignored:
  assumes "list_all isspace_char a" and "list_all isspace_char b"
  shows "fst (question_step timed per_question_time total_n i q acc (w\<lparr>stdin := (t, a @ s @ b) # rest\<rparr>))
           = fst (question_step timed per_question_time total_n i q acc (w\<lparr>stdin := (t, s) # rest\<rparr>))
       \<and> (snd (question_step timed per_question_time total_n i q acc (w\<lparr>stdin := (t, a @ s @ b) # rest\<rparr>)))\<lparr>stdin := []\<rparr>
           = (snd (question_step timed per_question_time total_n i q acc (w\<lparr>stdin := (t, s) # rest\<rparr>)))\<lparr>stdin := []\<rparr>"
  using strip_padding [OF assms, of s]
  by (auto simp: question_step_def list_copy_def shuffle_at_def print_all_def get_answer_def
        timed_input_def input_def print_def record_result_def Let_def
        split: prod.splits sum.splits option.splits)

theorem whitespace_ignored_witness:
  "list_all isspace_char '' '' \<and> list_all isspace_char [CHR 0x09, CHR '' '']
   \<and> fst (question_step False 15 2 1 (QUESTIONS ! 7) (0, [])
           ((example_world Writable [])\<lparr>stdin := (1, '' '' @ ''2'' @ [CHR 0x09, CHR '' '']) # []\<rparr>))
     = fst (question_step False 15 2 1 (QUESTIONS ! 7) (0, [])
           ((example_world Writable [])\<lparr>stdin := (1, ''2'') # []\<rparr>))
   \<and> fst (question_step False 15 2 1 (QUESTIONS ! 7) (0, [])
           ((example_world Writable [])\<lparr>stdin := (1, ''2'') # []\<rparr>))
     = Inr (0, [\<lparr>d_question = ''Which neural network architecture is best suited for sequence data like time series or text?'',
                  d_your = Some ''PCA'',
                  d_correct = ''Recurrent Neural Network (RNN)'',
                  d_result = ''incorrect''\<rparr>])"
proof -
  have sp: "list_all isspace_char '' ''" "list_all isspace_char [CHR 0x09, CHR '' '']"
    by (simp_all add: isspace_char_def)
  have ev: "fst (question_step False 15 2 1 (QUESTIONS ! 7) (0, [])
           ((example_world Writable [])\<lparr>stdin := (1, ''2'') # []\<rparr>))
     = Inr (0, [\<lparr>d_question = ''Which neural network architecture is best suited for sequence data like time series or text?'',
                  d_your = Some ''PCA'',
                  d_correct = ''Recurrent Neural Network (RNN)'',
                  d_result = ''incorrect''\<rparr>])"
    by code_simp
  show ?thesis
    using whitespace_ignored [OF sp, where timed = False and per_question_time = 15
            and total_n = 2 and i = 1 and q = "QUESTIONS ! 7" and acc = "(0, [])"
            and w = "example_world Writable []" and t = 1 and s = "''2''" and rest = "[]"]
          sp ev
    by simp
qed

section \<open>The leaderboard\<close>

lemma sorted_reverse_descending:
  "sorted_wrt (\<lambda>x y. f y \<le> f x) (sorted_reverse f xs)"
proof -
  have "sorted (map f (sort_key f (rev xs)))"
    by (rule sorted_sort_key)
  then have "sorted_wrt (\<lambda>x y. f x \<le> f y) (sort_key f (rev xs))"
    by (simp add: sorted_map)
  then show ?thesis
    by (simp add: sorted_reverse_def sorted_wrt_rev)
qed

lemma sorted_reverse_stable:
  "filter (\<lambda>x. f x = k) (sorted_reverse f xs) = filter (\<lambda>x. f x = k) xs"
proof -
  have "filter (\<lambda>x. f x = k) (sort_key f (rev xs)) = filter (\<lambda>x. f x = k) (rev xs)"
    by (rule sort_key_stable)
  then show ?thesis
    by (simp add: sorted_reverse_def rev_filter [symmetric])
qed

lemma sorted_reverse_mset: "mset (sorted_reverse f xs) = mset xs"
  by (simp add: sorted_reverse_def)

text \<open>
  Claim C5. For a count \<open>top_n \<ge> 0\<close>, the rows \<^verbatim>\<open>show_leaderboard\<close> lists are the first
  \<open>top_n\<close> of the stored entries sorted by percentage, highest first: the sorted list is
  a rearrangement of the stored one, in descending order of percentage, and the entries of
  any one percentage keep the order in which they were stored; at most \<open>top_n\<close> rows are
  listed, and they are what is printed under the header. The specification's example,
  percentages 50, 90, 90, 30 and \<open>top_n = 2\<close>, is the witness: the second record, then the
  third.
\<close>

theorem leaderboard_rows_ranked:
  assumes "0 \<le> top_n"
  shows "leaderboard_rows top_n data = take (nat top_n) (sorted_reverse e_percentage data)
       \<and> sorted_wrt (\<lambda>x y. e_percentage y \<le> e_percentage x) (sorted_reverse e_percentage data)
       \<and> mset (sorted_reverse e_percentage data) = mset data
       \<and> filter (\<lambda>x. e_percentage x = p) (sorted_reverse e_percentage data)
           = filter (\<lambda>x. e_percentage x = p) data
       \<and> length (leaderboard_rows top_n data) = min (nat top_n) (length data)
       \<and> (load_scores w = data \<and> data \<noteq> [] \<longrightarrow>
            stdout (show_leaderboard top_n w) =
              stdout w @ LeaderboardHeader (min top_n (int (length data))) #
                map (\<lambda>(i, e). LeaderboardLine i (e_user e) (e_score e) (e_total e)
                                 (e_percentage e) (e_timestamp e))
                    (enumerate 1 (leaderboard_rows top_n data)))"
proof -
  have r: "leaderboard_rows top_n data = take (nat top_n) (sorted_reverse e_percentage data)"
    using assms by (simp add: leaderboard_rows_def slice_to_def)
  have l: "length (sorted_reverse e_percentage data) = length data"
    by (simp add: sorted_reverse_def)
  show ?thesis
    using r l sorted_reverse_descending [of e_percentage data]
      sorted_reverse_stable [of e_percentage p data]
    by (simp add: sorted_reverse_mset show_leaderboard_def print_all_def leaderboard_rows_def Let_def)
qed

theorem leaderboard_rows_ranked_witness:
  "(0::int) \<le> 2
   \<and> leaderboard_rows 2
        [sample_entry ''r1'' 1 2 50, sample_entry ''r2'' 9 10 90,
         sample_entry ''r3'' 18 20 90, sample_entry ''r4'' 3 10 30]
      = [sample_entry ''r2'' 9 10 90, sample_entry ''r3'' 18 20 90]
   \<and> filter (\<lambda>x. e_percentage x = 90)
        (sorted_reverse e_percentage
           [sample_entry ''r1'' 1 2 50, sample_entry ''r2'' 9 10 90,
            sample_entry ''r3'' 18 20 90, sample_entry ''r4'' 3 10 30])
      = [sample_entry ''r2'' 9 10 90, sample_entry ''r3'' 18 20 90]
   \<and> stdout (show_leaderboard 2
        (initial_world
           (Doc [sample_entry ''r1'' 1 2 50, sample_entry ''r2'' 9 10 90,
                 sample_entry ''r3'' 18 20 90, sample_entry ''r4'' 3 10 30])
           Writable [] [] ''now'' False))
      = [LeaderboardHeader 2,
         LeaderboardLine 1 ''r2'' 9 10 90 ''2024-05-01T10:00:00'',
         LeaderboardLine 2 ''r3'' 18 20 90 ''2024-05-01T10:00:00'']"
proof -
  have s: "sorted_reverse e_percentage
          [sample_entry ''r1'' 1 2 50, sample_entry ''r2'' 9 10 90,
           sample_entry ''r3'' 18 20 90, sample_entry ''r4'' 3 10 30]
        = [sample_entry ''r2'' 9 10 90, sample_entry ''r3'' 18 20 90,
           sample_entry ''r1'' 1 2 50, sample_entry ''r4'' 3 10 30]"
    by (simp add: sorted_reverse_def sample_entry_def)
  have l: "load_scores (initial_world
           (Doc [sample_entry ''r1'' 1 2 50, sample_entry ''r2'' 9 10 90,
                 sample_entry ''r3'' 18 20 90, sample_entry ''r4'' 3 10 30])
           Writable [] [] ''now'' False)
        = [sample_entry ''r1'' 1 2 50, sample_entry ''r2'' 9 10 90,
           sample_entry ''r3'' 18 20 90, sample_entry ''r4'' 3 10 30]"
    by (simp add: load_scores_def initial_world_def)
  have o: "stdout (initial_world
           (Doc [sample_entry ''r1'' 1 2 50, sample_entry ''r2'' 9 10 90,
                 sample_entry ''r3'' 18 20 90, sample_entry ''r4'' 3 10 30])
           Writable [] [] ''now'' False) = []"
    by (simp add: initial_world_def)
  have f: "e_user (sample_entry u a b p) = u" "e_score (sample_entry u a b p) = a"
          "e_total (sample_entry u a b p) = b" "e_percentage (sample_entry u a b p) = p"
          "e_timestamp (sample_entry u a b p) = ''2024-05-01T10:00:00''" for u a b p
    by (simp_all add: sample_entry_def)
  show ?thesis
    using leaderboard_rows_ranked [of 2
            "[sample_entry ''r1'' 1 2 50, sample_entry ''r2'' 9 10 90,
              sample_entry ''r3'' 18 20 90, sample_entry ''r4'' 3 10 30]" 90
            "initial_world
               (Doc [sample_entry ''r1'' 1 2 50, sample_entry ''r2'' 9 10 90,
                     sample_entry ''r3'' 18 20 90, sample_entry ''r4'' 3 10 30])
               Writable [] [] ''now'' False"] s l o f
    by (simp add: enumerate_eq_zip)
qed

section \<open>What the question loop preserves\<close>

lemma stable_trans: "stable w w1 \<Longrightarrow> stable w1 w2 \<Longrightarrow> stable w w2"
  by (auto simp: stable_def)

lemma print_stable: "stable w (print m w)"
  by (simp add: stable_def print_def)

lemma print_all_stable: "stable w (print_all ms w)"
  by (simp add: stable_def print_all_def)

lemma copy_shuffle_stable: "list_copy a w = (c, w1) \<Longrightarrow> stable w (shuffle_at c w1)"
  by (auto simp: stable_def list_copy_def shuffle_at_def split: prod.splits)

lemma input_stable: "input m w = (r, w') \<Longrightarrow> stable w w'"
  by (auto simp: stable_def input_def print_def split: list.splits)

lemma timed_input_stable: "timed_input m t w = (r, w') \<Longrightarrow> stable w w'"
  by (auto simp: timed_input_def stable_def input_def print_def
        split: list.splits if_splits prod.splits sum.splits)

lemma get_answer_stable: "get_answer timed t n w = (r, w') \<Longrightarrow> stable w w'"
  by (auto simp: get_answer_def split: if_splits prod.splits sum.splits option.splits
        dest: input_stable timed_input_stable)

lemma record_result_stable: "record_result q ct c acc w = (acc', w') \<Longrightarrow> stable w w'"
  by (auto simp: record_result_def print_stable split: prod.splits if_splits)

lemma record_result_acc:
  "record_result q ct c (score, details) w = ((score', details'), w') \<Longrightarrow>
     details' = details @ [last details']
     \<and> score' = score + (if d_result (last details') = ''correct'' then 1 else 0)"
  by (cases c) (auto simp: record_result_def)

lemma question_step_cases:
  assumes "question_step timed per_question_time total_n i q acc w = (r, w')"
  obtains c w1 ra w4 where
    "list_copy (q_choices q) w = (c, w1)"
    "get_answer timed per_question_time (length (heap (shuffle_at c w1) c))
       (print_all (QuestionHeader i total_n (q_q q) #
          map (\<lambda>(idx, ch). ChoiceLine idx ch) (enumerate 1 (heap (shuffle_at c w1) c)))
          (shuffle_at c w1)) = (ra, w4)"
    "(\<exists>e. r = Inl e \<and> w' = w4)
     \<or> (\<exists>uc ct co acc'. ra = Inr uc
          \<and> validate uc (heap (shuffle_at c w1) c) (q_answer q) = Inr (ct, co)
          \<and> record_result q ct co acc w4 = (acc', w') \<and> r = Inr acc')"
proof -
  obtain c w1 where lc: "list_copy (q_choices q) w = (c, w1)"
    by (cases "list_copy (q_choices q) w")
  obtain ra w4 where ga:
    "get_answer timed per_question_time (length (heap (shuffle_at c w1) c))
       (print_all (QuestionHeader i total_n (q_q q) #
          map (\<lambda>(idx, ch). ChoiceLine idx ch) (enumerate 1 (heap (shuffle_at c w1) c)))
          (shuffle_at c w1)) = (ra, w4)"
    by (cases "get_answer timed per_question_time (length (heap (shuffle_at c w1) c))
       (print_all (QuestionHeader i total_n (q_q q) #
          map (\<lambda>(idx, ch). ChoiceLine idx ch) (enumerate 1 (heap (shuffle_at c w1) c)))
          (shuffle_at c w1))")
  from assms lc ga
  have "(\<exists>e. r = Inl e \<and> w' = w4)
     \<or> (\<exists>uc ct co acc'. ra = Inr uc
          \<and> validate uc (heap (shuffle_at c w1) c) (q_answer q) = Inr (ct, co)
          \<and> record_result q ct co acc w4 = (acc', w') \<and> r = Inr acc')"
    by (auto simp: question_step_def Let_def split: sum.splits prod.splits)
  with lc ga that show thesis by blast
qed

lemma question_step_frame:
  assumes "question_step timed per_question_time total_n i q acc w = (r, w')"
  shows "stable w w'"
proof -
  from assms obtain c w1 ra w4 where
    lc: "list_copy (q_choices q) w = (c, w1)" and
    ga: "get_answer timed per_question_time (length (heap (shuffle_at c w1) c))
       (print_all (QuestionHeader i total_n (q_q q) #
          map (\<lambda>(idx, ch). ChoiceLine idx ch) (enumerate 1 (heap (shuffle_at c w1) c)))
          (shuffle_at c w1)) = (ra, w4)" and
    r: "(\<exists>e. r = Inl e \<and> w' = w4)
     \<or> (\<exists>uc ct co acc'. ra = Inr uc
          \<and> validate uc (heap (shuffle_at c w1) c) (q_answer q) = Inr (ct, co)
          \<and> record_result q ct co acc w4 = (acc', w') \<and> r = Inr acc')"
    by (rule question_step_cases)
  have "stable w w4"
    using copy_shuffle_stable [OF lc] print_all_stable get_answer_stable [OF ga]
    by (blast intro: stable_trans)
  with r show ?thesis
    by (auto dest: record_result_stable intro: stable_trans)
qed

lemma question_step_acc:
  assumes "question_step timed per_question_time total_n i q (score, details) w = (Inr (score', details'), w')"
  shows "details' = details @ [last details']
           \<and> score' = score + (if d_result (last details') = ''correct'' then 1 else 0)"
  using assms by (elim question_step_cases) (auto dest: record_result_acc)

lemma quiz_loop_frame:
  "quiz_loop timed per_question_time total_n i pool acc w = (r, w') \<Longrightarrow> stable w w'"
proof (induction pool arbitrary: i acc w)
  case Nil
  then show ?case by (simp add: stable_def)
next
  case (Cons q pool)
  obtain r1 w1 where s: "question_step timed per_question_time total_n i q acc w = (r1, w1)"
    by (cases "question_step timed per_question_time total_n i q acc w")
  note f = question_step_frame [OF s]
  show ?case
  proof (cases r1)
    case (Inl e)
    with s Cons.prems f show ?thesis by simp
  next
    case (Inr acc')
    with s Cons.prems
    have "quiz_loop timed per_question_time total_n (Suc i) pool acc' w1 = (r, w')"
      by simp
    from Cons.IH [OF this] f show ?thesis by (blast intro: stable_trans)
  qed
qed

lemma quiz_loop_acc:
  "quiz_loop timed per_question_time total_n i pool (score, details) w = (Inr (score', details'), w') \<Longrightarrow>
     score' - count_correct details' = score - count_correct details
     \<and> length details' = length details + length pool"
proof (induction pool arbitrary: i score details w)
  case Nil
  then show ?case by simp
next
  case (Cons q pool)
  obtain r1 w1 where s: "question_step timed per_question_time total_n i q (score, details) w = (r1, w1)"
    by (cases "question_step timed per_question_time total_n i q (score, details) w")
  show ?case
  proof (cases r1)
    case (Inl e)
    with s Cons.prems show ?thesis by simp
  next
    case (Inr acc')
    obtain s1 d1 where acc': "acc' = (s1, d1)" by (cases acc')
    from s Inr acc' Cons.prems
    have l: "quiz_loop timed per_question_time total_n (Suc i) pool (s1, d1) w1 = (Inr (score', details'), w')"
      by simp
    from question_step_acc [OF s [unfolded Inr acc']]
    obtain d where d: "d1 = details @ [d]" "s1 = score + (if d_result d = ''correct'' then 1 else 0)"
      by blast
    from Cons.IH [OF l] d show ?thesis
      by (simp add: count_correct_def)
  qed
qed


lemma count_correct_le: "count_correct details \<le> int (length details)"
  by (simp add: count_correct_def)

lemma finish_heap: "heap (snd (finish fl user score total_n details w)) = heap w"
  by (simp add: finish_def accuracy_of_def save_score_def print_def Let_def split: disk.splits)

lemma finish_entry:
  assumes "finish fl user score total_n details w = (Inr (Some e), w')"
  shows "total_n \<noteq> 0
       \<and> e = \<lparr>e_user = user, e_score = score, e_total = total_n,
               e_percentage = percentage_of fl score total_n, e_timestamp = clock w,
               e_details = details\<rparr>
       \<and> stdout w' = stdout w @
            [QuizCompleted, ScoreLine score total_n,
             PercentageLine (percentage_of fl score total_n),
             AccuracyLine (fmul fl (truediv fl (count_correct details) total_n) 100),
             ResultSaved]"
  using assms
  by (auto simp: finish_def accuracy_of_def save_score_def print_def Let_def
        split: disk.splits if_splits)


lemma finish_writable:
  "finish fl user score total_n details w = (Inr (Some e), w') \<Longrightarrow> disk w = Writable"
  by (cases "disk w")
     (auto simp: finish_def accuracy_of_def save_score_def print_def Let_def split: if_splits)

lemma run_quiz_cases:
  assumes "run_quiz fl bank user difficulty timed per_question_time num_questions w = (r, w')"
  obtains
    (empty) "r = Inr None" "w' = print NoQuestionsMatch w"
  | (raised) pool g e where
      "quiz_loop timed per_question_time (int (length pool)) 1 pool (0, [])
         (print (Starting user (int (length pool)) timed) (w\<lparr>rng := g\<rparr>)) = (Inl e, w')"
      "r = Inl e"
  | (finished) pool g score details w2 where
      "quiz_loop timed per_question_time (int (length pool)) 1 pool (0, [])
         (print (Starting user (int (length pool)) timed) (w\<lparr>rng := g\<rparr>))
         = (Inr (score, details), w2)"
      "finish fl user score (int (length pool)) details w2 = (r, w')"
proof (cases "filter (\<lambda>q. difficulty = ''all'' \<or> q_difficulty q = difficulty) bank = []")
  case True
  with assms have "r = Inr None" "w' = print NoQuestionsMatch w"
    by (simp_all add: run_quiz_def)
  then show thesis by (rule empty)
next
  case False
  obtain pool g where dp:
    "draw_pool (filter (\<lambda>q. difficulty = ''all'' \<or> q_difficulty q = difficulty) bank)
       num_questions (rng w) = (pool, g)"
    by (cases "draw_pool (filter (\<lambda>q. difficulty = ''all'' \<or> q_difficulty q = difficulty) bank)
       num_questions (rng w)")
  obtain rl w2 where ql:
    "quiz_loop timed per_question_time (int (length pool)) 1 pool (0, [])
         (print (Starting user (int (length pool)) timed) (w\<lparr>rng := g\<rparr>)) = (rl, w2)"
    by (cases "quiz_loop timed per_question_time (int (length pool)) 1 pool (0, [])
         (print (Starting user (int (length pool)) timed) (w\<lparr>rng := g\<rparr>))")
  show thesis
  proof (cases rl)
    case (Inl e)
    with assms False dp ql have "r = Inl e" "w' = w2"
      by (simp_all add: run_quiz_def Let_def)
    with ql Inl show thesis by (auto intro: raised)
  next
    case (Inr acc)
    obtain score details where acc: "acc = (score, details)" by (cases acc)
    with assms False dp ql Inr
    have "finish fl user score (int (length pool)) details w2 = (r, w')"
      by (simp add: run_quiz_def Let_def)
    with ql Inr acc show thesis by (auto intro: finished)
  qed
qed

section \<open>Score, percentage and accuracy\<close>

text \<open>
  Claim C2. Whenever \<^verbatim>\<open>run_quiz\<close> returns an entry, its score lies between 0 and its
  total, the total is positive and is the length of the detail log, the score is the number
  of details whose result is "correct", and the accuracy recomputed from the detail log is
  the very value stored as the percentage, \<open>score / total * 100\<close>, in whatever float
  arithmetic the machine has; the percentage line and the accuracy line printed carry that
  one value.
\<close>

theorem metrics_agree:
  assumes "run_quiz fl bank user difficulty timed per_question_time num_questions w
             = (Inr (Some e), w')"
  shows "0 \<le> e_score e \<and> e_score e \<le> e_total e \<and> 0 < e_total e
       \<and> e_score e = count_correct (e_details e)
       \<and> e_total e = int (length (e_details e))
       \<and> e_percentage e = fmul fl (truediv fl (e_score e) (e_total e)) 100
       \<and> accuracy_of fl (e_details e) (e_total e) = Inr (e_percentage e)
       \<and> (\<exists>pre. stdout w' = pre @ [PercentageLine (e_percentage e),
                                      AccuracyLine (e_percentage e), ResultSaved])"
  using assms
proof (cases rule: run_quiz_cases)
  case empty
  then show ?thesis by simp
next
  case (raised pool g e)
  then show ?thesis by simp
next
  case (finished pool g score details w2)
  from quiz_loop_acc [OF finished(1)]
  have sc: "score = count_correct details" and len: "length details = length pool"
    by (simp_all add: count_correct_def)
  note fe = finish_entry [OF finished(2)]
  from fe have e: "e_score e = score" "e_total e = int (length pool)" "e_details e = details"
      "e_percentage e = percentage_of fl score (int (length pool))"
    and nz: "int (length pool) \<noteq> 0"
    by simp_all
  have le: "score \<le> int (length pool)"
    using count_correct_le [of details] sc len by simp
  have nn: "0 \<le> score"
    using sc by (simp add: count_correct_def)
  from fe sc
  have out: "\<exists>pre. stdout w' = pre @ [PercentageLine (e_percentage e),
                                      AccuracyLine (e_percentage e), ResultSaved]"
    using nz e by (auto simp: percentage_of_def)
  show ?thesis
    using e nz le nn sc len out
    by (simp add: percentage_of_def accuracy_of_def)
qed

theorem metrics_agree_witness:
  "fst (run_quiz exact_arith QUESTIONS ''ann'' ''hard'' False 15 None
          (example_world Writable [(1, '' 2 ''), (2, ''o(n^2)'')])) = Inr (Some example_entry)
   \<and> e_score example_entry = 1 \<and> e_total example_entry = 2
   \<and> e_percentage example_entry = 50
   \<and> count_correct (e_details example_entry) = 1
   \<and> accuracy_of exact_arith (e_details example_entry) (e_total example_entry) = Inr 50"
proof -
  have r: "fst (run_quiz exact_arith QUESTIONS ''ann'' ''hard'' False 15 None
          (example_world Writable [(1, '' 2 ''), (2, ''o(n^2)'')])) = Inr (Some example_entry)"
    by code_simp
  then have h: "run_quiz exact_arith QUESTIONS ''ann'' ''hard'' False 15 None
          (example_world Writable [(1, '' 2 ''), (2, ''o(n^2)'')])
        = (Inr (Some example_entry),
           snd (run_quiz exact_arith QUESTIONS ''ann'' ''hard'' False 15 None
                  (example_world Writable [(1, '' 2 ''), (2, ''o(n^2)'')])))"
    by (simp add: prod_eq_iff)
  have e: "e_score example_entry = 1" "e_total example_entry = 2"
          "e_percentage example_entry = 50"
    by (simp_all add: example_entry_def)
  show ?thesis
    using metrics_agree [OF h] r e by simp
qed

section \<open>A failed write\<close>

text \<open>
  Claim C4, as the specification states it, has a failed write reported as a warning while
  the record is still returned. The code has no handler around \<^verbatim>\<open>save_score\<close>: with the
  scores file not writable, the run of one question ends in the exception, no record is
  returned, and the last thing printed is the accuracy line (neither a warning nor
  "Result saved").
\<close>

theorem write_failure_counterexample:
  "fst (run_quiz exact_arith QUESTIONS ''ann'' ''hard'' False 15 (Some 1)
          (example_world OpenDenied [(1, ''2'')])) = Inl OSError
   \<and> stdout (snd (run_quiz exact_arith QUESTIONS ''ann'' ''hard'' False 15 (Some 1)
          (example_world OpenDenied [(1, ''2'')])))
     = [Starting ''ann'' 1 False,
        QuestionHeader 1 1 ''Which neural network architecture is best suited for sequence data like time series or text?'',
        ChoiceLine 1 ''Recurrent Neural Network (RNN)'',
        ChoiceLine 2 ''K-Means'',
        ChoiceLine 3 ''PCA'',
        ChoiceLine 4 ''Convolutional Neural Network (CNN)'',
        Prompt 4,
        IncorrectMsg ''Recurrent Neural Network (RNN)'',
        QuizCompleted, ScoreLine 0 1, PercentageLine 0, AccuracyLine 0]
   \<and> scores_file (snd (run_quiz exact_arith QUESTIONS ''ann'' ''hard'' False 15 (Some 1)
          (example_world OpenDenied [(1, ''2'')]))) = NoFile"
  by code_simp

text \<open>
  Claim C4, amended. If the scores file cannot be written, the error raised inside
  \<^verbatim>\<open>save_score\<close> leaves \<^verbatim>\<open>run_quiz\<close> as an exception: the closing report (completion,
  score, percentage, accuracy) has been printed before the write, nothing is printed after
  it, and \<^verbatim>\<open>run_quiz\<close> returns no record.
\<close>

theorem save_failure_propagates:
  assumes "disk w \<noteq> Writable"
  shows "(total_n \<noteq> 0 \<longrightarrow>
            fst (finish fl user score total_n details w) = Inl OSError
            \<and> stdout (snd (finish fl user score total_n details w)) =
                stdout w @ [QuizCompleted, ScoreLine score total_n,
                            PercentageLine (percentage_of fl score total_n),
                            AccuracyLine (fmul fl (truediv fl (count_correct details) total_n) 100)])
       \<and> fst (run_quiz fl bank user difficulty timed per_question_time num_questions w)
            \<noteq> Inr (Some e)"
proof (intro conjI impI)
  assume "total_n \<noteq> 0"
  with assms show "fst (finish fl user score total_n details w) = Inl OSError"
    by (cases "disk w")
       (simp_all add: finish_def accuracy_of_def save_score_def print_def Let_def)
  from assms \<open>total_n \<noteq> 0\<close>
  show "stdout (snd (finish fl user score total_n details w)) =
                stdout w @ [QuizCompleted, ScoreLine score total_n,
                            PercentageLine (percentage_of fl score total_n),
                            AccuracyLine (fmul fl (truediv fl (count_correct details) total_n) 100)]"
    by (cases "disk w")
       (simp_all add: finish_def accuracy_of_def save_score_def print_def Let_def)
next
  show "fst (run_quiz fl bank user difficulty timed per_question_time num_questions w)
            \<noteq> Inr (Some e)"
  proof
    assume a: "fst (run_quiz fl bank user difficulty timed per_question_time num_questions w)
                 = Inr (Some e)"
    obtain w' where "run_quiz fl bank user difficulty timed per_question_time num_questions w
                       = (Inr (Some e), w')"
      using a by (cases "run_quiz fl bank user difficulty timed per_question_time num_questions w") simp
    then show False
    proof (cases rule: run_quiz_cases)
      case empty
      then show ?thesis by simp
    next
      case (raised pool g e)
      then show ?thesis by simp
    next
      case (finished pool g score details w2)
      from quiz_loop_frame [OF finished(1)] have "disk w2 = disk w"
        by (simp add: stable_def print_def)
      with assms finished(2) show ?thesis
        using finish_writable by fastforce
    qed
  qed
qed

theorem save_failure_propagates_witness:
  "disk (example_world DiskFull [(1, ''2'')]) \<noteq> Writable \<and> (1::int) \<noteq> 0
   \<and> fst (finish exact_arith ''ann'' 0 1 [] (example_world DiskFull [(1, ''2'')])) = Inl OSError
   \<and> stdout (snd (finish exact_arith ''ann'' 0 1 [] (example_world DiskFull [(1, ''2'')])))
       = [QuizCompleted, ScoreLine 0 1, PercentageLine 0, AccuracyLine 0]
   \<and> fst (run_quiz exact_arith QUESTIONS ''ann'' ''hard'' False 15 (Some 1)
            (example_world DiskFull [(1, ''2'')])) \<noteq> Inr (Some example_entry)"
proof -
  have d: "disk (example_world DiskFull [(1, ''2'')]) \<noteq> Writable"
    by (simp add: example_world_def initial_world_def)
  have o: "stdout (example_world DiskFull [(1, ''2'')]) = []"
    by (simp add: example_world_def initial_world_def)
  have p: "percentage_of exact_arith 0 1 = 0"
          "fmul exact_arith (truediv exact_arith (count_correct []) 1) 100 = 0"
    by (simp_all add: percentage_of_def exact_arith_def count_correct_def)
  show ?thesis
    using save_failure_propagates [OF d, of 1 exact_arith "''ann''" 0 "[]" QUESTIONS
            "''hard''" False 15 "Some 1" example_entry] d o p
    by simp
qed

section \<open>The bank's lists of choices\<close>

text \<open>
  Claim C9. The shuffling of choices works on a copy: when the lists of choices of the
  bank are objects of the store, then after \<^verbatim>\<open>run_quiz\<close>, however it ends, the list of
  every question of the bank holds what it held before, in the same order. In the witness
  the choices of a question were presented in another order than the bank's.
\<close>

theorem bank_choices_untouched:
  assumes "list_all (\<lambda>q. q_choices q < next_addr w) bank" and "q \<in> set bank"
  shows "heap (snd (run_quiz fl bank user difficulty timed per_question_time num_questions w))
           (q_choices q) = heap w (q_choices q)"
proof -
  obtain r w' where rq:
    "run_quiz fl bank user difficulty timed per_question_time num_questions w = (r, w')"
    by (cases "run_quiz fl bank user difficulty timed per_question_time num_questions w")
  from assms have lt: "q_choices q < next_addr w"
    by (simp add: list_all_iff)
  from rq have "heap w' (q_choices q) = heap w (q_choices q)"
  proof (cases rule: run_quiz_cases)
    case empty
    then show ?thesis by (simp add: print_def)
  next
    case (raised pool g e)
    from quiz_loop_frame [OF raised(1)] lt show ?thesis
      by (simp add: stable_def print_def)
  next
    case (finished pool g score details w2)
    from quiz_loop_frame [OF finished(1)] lt
    have "heap w2 (q_choices q) = heap w (q_choices q)"
      by (simp add: stable_def print_def)
    moreover from finished(2) have "heap w' = heap w2"
      using finish_heap [of fl user score "int (length pool)" details w2] by simp
    ultimately show ?thesis by simp
  qed
  with rq show ?thesis by simp
qed

theorem bank_choices_untouched_witness:
  "list_all (\<lambda>q. q_choices q < next_addr (example_world Writable [(1, '' 2 ''), (2, ''o(n^2)'')]))
     QUESTIONS
   \<and> QUESTIONS ! 7 \<in> set QUESTIONS \<and> q_choices (QUESTIONS ! 7) = 7
   \<and> heap (snd (run_quiz exact_arith QUESTIONS ''ann'' ''hard'' False 15 None
             (example_world Writable [(1, '' 2 ''), (2, ''o(n^2)'')]))) 7
       = [''Convolutional Neural Network (CNN)'', ''Recurrent Neural Network (RNN)'',
          ''K-Means'', ''PCA'']
   \<and> heap (snd (run_quiz exact_arith QUESTIONS ''ann'' ''hard'' False 15 None
             (example_world Writable [(1, '' 2 ''), (2, ''o(n^2)'')]))) 9
       = [''Recurrent Neural Network (RNN)'', ''K-Means'', ''PCA'',
          ''Convolutional Neural Network (CNN)'']"
proof -
  have a: "list_all (\<lambda>q. q_choices q < next_addr (example_world Writable [(1, '' 2 ''), (2, ''o(n^2)'')]))
     QUESTIONS"
    by (simp add: QUESTIONS_def example_world_def initial_world_def)
  have m: "QUESTIONS ! 7 \<in> set QUESTIONS"
    by (simp add: QUESTIONS_def)
  have c: "q_choices (QUESTIONS ! 7) = 7"
    by (simp add: QUESTIONS_def)
  have h0: "heap (example_world Writable [(1, '' 2 ''), (2, ''o(n^2)'')]) 7
       = [''Convolutional Neural Network (CNN)'', ''Recurrent Neural Network (RNN)'',
          ''K-Means'', ''PCA'']"
    by (simp add: example_world_def initial_world_def QUESTIONS_heap_def)
  have h9: "heap (snd (run_quiz exact_arith QUESTIONS ''ann'' ''hard'' False 15 None
             (example_world Writable [(1, '' 2 ''), (2, ''o(n^2)'')]))) 9
       = [''Recurrent Neural Network (RNN)'', ''K-Means'', ''PCA'',
          ''Convolutional Neural Network (CNN)'']"
    by code_simp
  show ?thesis
    using bank_choices_untouched [OF a m, of exact_arith "''ann''" "''hard''" False 15 None]
          a m c h0 h9
    by simp
qed

end
